theory Spec2Isabelle
  imports Main "HOL-Library.Word"
begin

unbundle bit_operations_syntax

section \<open>Data model of libflashrom.c\<close>

text \<open>
  The structs of libflashrom.c become records, its enums datatypes. Pointers that the code
  tests against NULL are options (\<open>None\<close> is NULL). Where two C structs share a field
  name, the field carries the struct's name as a prefix here.
\<close>

type_synonym byte = "8 word"
type_synonym chipoff_t = "32 word"

text \<open>\<open>enum flashrom_flag\<close> of libflashrom.h.\<close>

datatype flashrom_flag =
    FLASHROM_FLAG_FORCE
  | FLASHROM_FLAG_FORCE_BOARDMISMATCH
  | FLASHROM_FLAG_VERIFY_AFTER_WRITE
  | FLASHROM_FLAG_VERIFY_WHOLE_CHIP

text \<open>\<open>enum flashrom_wp_result\<close> of libflashrom.h, in the order of its values 0 to 9.\<close>

datatype flashrom_wp_result =
    FLASHROM_WP_OK
  | FLASHROM_WP_ERR_CHIP_UNSUPPORTED
  | FLASHROM_WP_ERR_OTHER
  | FLASHROM_WP_ERR_READ_FAILED
  | FLASHROM_WP_ERR_WRITE_FAILED
  | FLASHROM_WP_ERR_VERIFY_FAILED
  | FLASHROM_WP_ERR_RANGE_UNSUPPORTED
  | FLASHROM_WP_ERR_MODE_UNSUPPORTED
  | FLASHROM_WP_ERR_RANGE_LIST_UNAVAILABLE
  | FLASHROM_WP_ERR_UNSUPPORTED_STATE

datatype flashrom_wp_mode =
    FLASHROM_WP_MODE_DISABLED
  | FLASHROM_WP_MODE_HARDWARE
  | FLASHROM_WP_MODE_POWER_CYCLE
  | FLASHROM_WP_MODE_PERMANENT

text \<open>
  One entry of the table of known chips: the name that \<open>chip_to_probe\<close> is compared
  with, and \<open>total_size\<close> in kB as \<open>flashrom_flash_getsize\<close> reads it.
\<close>

record flashchip =
  name :: string
  total_size :: nat

text \<open>
  A registered master (transport). \<open>buses_supported\<close> is the bus mask the write-protect
  gate tests. \<open>detect\<close> stands for the hardware behind the master: entry \<open>j\<close> says
  whether the chip-table entry \<open>j\<close> answers a probe on this master.
\<close>

record registered_master =
  buses_supported :: "32 word"
  detect :: "bool list"

record romentry =
  start :: chipoff_t
  end_off :: chipoff_t
  included :: bool
  entry_name :: "string option"

text \<open>
  \<open>struct flashrom_layout\<close>: the entries store (an array of fixed capacity) and the
  number of populated entries.
\<close>

record flashrom_layout =
  entries :: "romentry list"
  num_entries :: nat

record flashrom_flags =
  force :: bool
  force_boardmismatch :: bool
  verify_after_write :: bool
  verify_whole_chip :: bool

record flashrom_flashctx =
  chip :: "flashchip option"
  mst :: "registered_master option"
  flags :: flashrom_flags
  layout :: "flashrom_layout option"

text \<open>What \<open>memset(ctx, 0, sizeof(*ctx))\<close> and \<open>= { 0, }\<close> leave in a context.\<close>

definition zero_flashctx :: flashrom_flashctx where
  "zero_flashctx =
     \<lparr>chip = None, mst = None,
      flags = \<lparr>force = False, force_boardmismatch = False,
               verify_after_write = False, verify_whole_chip = False\<rparr>,
      layout = None\<rparr>"

record wp_range =
  range_start :: nat
  range_len :: nat

record flashrom_wp_cfg =
  mode :: flashrom_wp_mode
  range :: wp_range

text \<open>
  \<open>struct flashrom_wp_ranges\<close>: the storage \<open>ranges\<close> and the \<open>count\<close> the accessors
  compare the index with.
\<close>

record flashrom_wp_ranges =
  ranges :: "wp_range list"
  count :: nat

section \<open>Flags\<close>

text \<open>
  \<open>flashrom_flag_set\<close>: the switch over the four enumerators, each case assigning one
  field of \<open>flashctx->flags\<close>.
\<close>

fun flashrom_flag_set ::
  "flashrom_flashctx \<Rightarrow> flashrom_flag \<Rightarrow> bool \<Rightarrow> flashrom_flashctx" where
  "flashrom_flag_set flashctx FLASHROM_FLAG_FORCE v =
     flashctx\<lparr>flags := (flags flashctx)\<lparr>force := v\<rparr>\<rparr>"
| "flashrom_flag_set flashctx FLASHROM_FLAG_FORCE_BOARDMISMATCH v =
     flashctx\<lparr>flags := (flags flashctx)\<lparr>force_boardmismatch := v\<rparr>\<rparr>"
| "flashrom_flag_set flashctx FLASHROM_FLAG_VERIFY_AFTER_WRITE v =
     flashctx\<lparr>flags := (flags flashctx)\<lparr>verify_after_write := v\<rparr>\<rparr>"
| "flashrom_flag_set flashctx FLASHROM_FLAG_VERIFY_WHOLE_CHIP v =
     flashctx\<lparr>flags := (flags flashctx)\<lparr>verify_whole_chip := v\<rparr>\<rparr>"

text \<open>
  \<open>flashrom_flag_get\<close>. The \<open>default: return false\<close> of the C switch is reached only by
  a value outside the enumeration, which the datatype does not have.
\<close>

fun flashrom_flag_get :: "flashrom_flashctx \<Rightarrow> flashrom_flag \<Rightarrow> bool" where
  "flashrom_flag_get flashctx FLASHROM_FLAG_FORCE = force (flags flashctx)"
| "flashrom_flag_get flashctx FLASHROM_FLAG_FORCE_BOARDMISMATCH =
     force_boardmismatch (flags flashctx)"
| "flashrom_flag_get flashctx FLASHROM_FLAG_VERIFY_AFTER_WRITE =
     verify_after_write (flags flashctx)"
| "flashrom_flag_get flashctx FLASHROM_FLAG_VERIFY_WHOLE_CHIP =
     verify_whole_chip (flags flashctx)"

definition flashrom_flash_getsize :: "flashrom_flashctx \<Rightarrow> nat option" where
  "flashrom_flash_getsize flashctx =
     (case chip flashctx of None \<Rightarrow> None | Some c \<Rightarrow> Some (total_size c * 1024))"

definition flashrom_layout_set ::
  "flashrom_flashctx \<Rightarrow> flashrom_layout option \<Rightarrow> flashrom_flashctx" where
  "flashrom_layout_set flashctx l = flashctx\<lparr>layout := l\<rparr>"

section \<open>Write protection\<close>

text \<open>
  The value objects: \<open>flashrom_wp_cfg_new\<close> is \<open>calloc\<close>, which either fails or
  returns a zeroed configuration.
\<close>

definition zero_wp_cfg :: flashrom_wp_cfg where
  "zero_wp_cfg = \<lparr>mode = FLASHROM_WP_MODE_DISABLED, range = \<lparr>range_start = 0, range_len = 0\<rparr>\<rparr>"

definition flashrom_wp_cfg_new :: "bool \<Rightarrow> flashrom_wp_result \<times> flashrom_wp_cfg option" where
  "flashrom_wp_cfg_new calloc_ok =
     (if calloc_ok then (FLASHROM_WP_OK, Some zero_wp_cfg) else (FLASHROM_WP_ERR_OTHER, None))"

definition flashrom_wp_set_mode :: "flashrom_wp_cfg \<Rightarrow> flashrom_wp_mode \<Rightarrow> flashrom_wp_cfg" where
  "flashrom_wp_set_mode cfg m = cfg\<lparr>mode := m\<rparr>"

definition flashrom_wp_get_mode :: "flashrom_wp_cfg \<Rightarrow> flashrom_wp_mode" where
  "flashrom_wp_get_mode cfg = mode cfg"

definition flashrom_wp_set_range :: "flashrom_wp_cfg \<Rightarrow> nat \<Rightarrow> nat \<Rightarrow> flashrom_wp_cfg" where
  "flashrom_wp_set_range cfg s l =
     cfg\<lparr>range := (range cfg)\<lparr>range_start := s, range_len := l\<rparr>\<rparr>"

definition flashrom_wp_get_range :: "flashrom_wp_cfg \<Rightarrow> nat \<times> nat" where
  "flashrom_wp_get_range cfg = (range_start (range cfg), range_len (range cfg))"

text \<open>
  The three gated operations. \<open>BUS_SPI\<close> (a constant of flash.h) and the operations
  \<open>wp_write_cfg\<close>, \<open>wp_read_cfg\<close> and \<open>wp_get_available_ranges\<close> of writeprotect.c are
  parameters: each underlying operation is any function of the objects it is handed and of
  the state \<open>'w\<close> of the world behind the master (the chip's registers, or a stub's call
  counter), returning its result with whatever it changed. \<open>flash->mst\<close> is dereferenced
  before the gate: on a context without a master the C is undefined, here \<open>None\<close>.
\<close>

definition flashrom_wp_write_cfg ::
  "32 word
   \<Rightarrow> (flashrom_flashctx \<Rightarrow> flashrom_wp_cfg \<Rightarrow> 'w \<Rightarrow> flashrom_wp_result \<times> flashrom_flashctx \<times> 'w)
   \<Rightarrow> flashrom_flashctx \<Rightarrow> flashrom_wp_cfg \<Rightarrow> 'w
   \<Rightarrow> (flashrom_wp_result \<times> flashrom_flashctx \<times> 'w) option" where
  "flashrom_wp_write_cfg BUS_SPI wp_write_cfg flash cfg w =
     (case mst flash of
        None \<Rightarrow> None
      | Some m \<Rightarrow>
          if buses_supported m AND BUS_SPI \<noteq> 0 then Some (wp_write_cfg flash cfg w)
          else Some (FLASHROM_WP_ERR_OTHER, flash, w))"

definition flashrom_wp_read_cfg ::
  "32 word
   \<Rightarrow> (flashrom_wp_cfg \<Rightarrow> flashrom_flashctx \<Rightarrow> 'w
        \<Rightarrow> flashrom_wp_result \<times> flashrom_wp_cfg \<times> flashrom_flashctx \<times> 'w)
   \<Rightarrow> flashrom_wp_cfg \<Rightarrow> flashrom_flashctx \<Rightarrow> 'w
   \<Rightarrow> (flashrom_wp_result \<times> flashrom_wp_cfg \<times> flashrom_flashctx \<times> 'w) option" where
  "flashrom_wp_read_cfg BUS_SPI wp_read_cfg cfg flash w =
     (case mst flash of
        None \<Rightarrow> None
      | Some m \<Rightarrow>
          if buses_supported m AND BUS_SPI \<noteq> 0 then Some (wp_read_cfg cfg flash w)
          else Some (FLASHROM_WP_ERR_OTHER, cfg, flash, w))"

text \<open>\<open>list\<close> is the caller's \<open>struct flashrom_wp_ranges *\<close> that \<open>*list\<close> names.\<close>

definition flashrom_wp_get_available_ranges ::
  "32 word
   \<Rightarrow> (flashrom_wp_ranges option \<Rightarrow> flashrom_flashctx \<Rightarrow> 'w
        \<Rightarrow> flashrom_wp_result \<times> flashrom_wp_ranges option \<times> flashrom_flashctx \<times> 'w)
   \<Rightarrow> flashrom_wp_ranges option \<Rightarrow> flashrom_flashctx \<Rightarrow> 'w
   \<Rightarrow> (flashrom_wp_result \<times> flashrom_wp_ranges option \<times> flashrom_flashctx \<times> 'w) option" where
  "flashrom_wp_get_available_ranges BUS_SPI wp_get_available_ranges list flash w =
     (case mst flash of
        None \<Rightarrow> None
      | Some m \<Rightarrow>
          if buses_supported m AND BUS_SPI \<noteq> 0 then Some (wp_get_available_ranges list flash w)
          else Some (FLASHROM_WP_ERR_OTHER, list, flash, w))"

definition flashrom_wp_ranges_get_count :: "flashrom_wp_ranges \<Rightarrow> nat" where
  "flashrom_wp_ranges_get_count list = count list"

text \<open>
  \<open>flashrom_wp_ranges_get_range\<close>, with the caller's \<open>*start\<close> and \<open>*len\<close> passed in and
  returned. An index below \<open>count\<close> that lies outside the storage reads beyond the
  array, which is undefined in C and \<open>None\<close> here.
\<close>

definition flashrom_wp_ranges_get_range ::
  "nat \<Rightarrow> nat \<Rightarrow> flashrom_wp_ranges \<Rightarrow> nat \<Rightarrow> (flashrom_wp_result \<times> nat \<times> nat) option" where
  "flashrom_wp_ranges_get_range start0 len0 list index =
     (if index \<ge> count list then Some (FLASHROM_WP_ERR_OTHER, start0, len0)
      else if index < length (ranges list)
        then Some (FLASHROM_WP_OK,
                   range_start (ranges list ! index), range_len (ranges list ! index))
      else None)"

section \<open>Probing\<close>

text \<open>
  Modelled from the spec: \<open>probe_flash\<close> of flashrom.c is not under src/. The spec gives a
  transport the primitive \<open>attempt_probe(start_index) -> match_index | none\<close>, whose
  matches are "enumerated by successive probe-attempt indices starting after any prior
  match", and libflashrom.c documents \<open>chip_name\<close> as the "name of a chip to probe for, or
  NULL to probe for all known chips". So entry \<open>j\<close> of the chip table matches on a master
  when it passes the name filter and the hardware behind the master answers its probe;
  \<open>probe_flash\<close> scans the table from \<open>startchip\<close> and returns the index of the first
  match, having filled the context with the chip and the master, or \<open>-1\<close> with no chip in
  the context.
\<close>

definition chip_matches ::
  "string option \<Rightarrow> flashchip list \<Rightarrow> registered_master \<Rightarrow> nat \<Rightarrow> bool" where
  "chip_matches chip_to_probe flashchips m j =
     (j < length flashchips
      \<and> (case chip_to_probe of None \<Rightarrow> True | Some n \<Rightarrow> name (flashchips ! j) = n)
      \<and> j < length (detect m) \<and> detect m ! j)"

definition probe_flash ::
  "string option \<Rightarrow> flashchip list \<Rightarrow> registered_master \<Rightarrow> int \<Rightarrow> flashrom_flashctx
   \<Rightarrow> int \<times> flashrom_flashctx" where
  "probe_flash chip_to_probe flashchips m startchip flash =
     (case find (chip_matches chip_to_probe flashchips m)
             [nat startchip ..< length flashchips] of
        None \<Rightarrow> (- 1, flash\<lparr>chip := None\<rparr>)
      | Some j \<Rightarrow> (int j, flash\<lparr>chip := Some (flashchips ! j), mst := Some m\<rparr>))"

text \<open>
  The loop of \<open>flashrom_flash_probe\<close> over \<open>registered_masters[i]\<close>, as a recursion over
  the masters still to visit, with the loop's variables \<open>ret\<close>, \<open>**flashctx\<close> and
  \<open>second_flashctx\<close> as arguments. The condition
  \<open>!ret || (flash_idx = probe_flash(.., 0, *flashctx, 0)) != -1\<close> short-circuits: once \<open>ret\<close>
  is 0 the first probe is skipped and \<open>flash_idx\<close> keeps its initial \<open>-1\<close>. The result 3
  is the \<open>break\<close>.
\<close>

fun probe_masters ::
  "string option \<Rightarrow> flashchip list \<Rightarrow> registered_master list \<Rightarrow> int
   \<Rightarrow> flashrom_flashctx \<Rightarrow> flashrom_flashctx \<Rightarrow> int \<times> flashrom_flashctx" where
  "probe_masters ctp flashchips [] ret flashctx second_flashctx = (ret, flashctx)"
| "probe_masters ctp flashchips (m # ms) ret flashctx second_flashctx =
     (if ret = 0 then
        (let flash_idx = - 1 in
         if fst (probe_flash ctp flashchips m (flash_idx + 1) second_flashctx) \<noteq> - 1
         then (3, flashctx)
         else probe_masters ctp flashchips ms 0 flashctx
                (snd (probe_flash ctp flashchips m (flash_idx + 1) second_flashctx)))
      else
        (let flash_idx = fst (probe_flash ctp flashchips m 0 flashctx);
             flashctx' = snd (probe_flash ctp flashchips m 0 flashctx) in
         if flash_idx \<noteq> - 1 then
           (if fst (probe_flash ctp flashchips m (flash_idx + 1) second_flashctx) \<noteq> - 1
            then (3, flashctx')
            else probe_masters ctp flashchips ms 0 flashctx'
                   (snd (probe_flash ctp flashchips m (flash_idx + 1) second_flashctx)))
         else probe_masters ctp flashchips ms ret flashctx' second_flashctx))"

text \<open>
  The heap of flash contexts (addresses to live contexts) and the global \<open>chip_to_probe\<close>
  of flashrom.c, which \<open>flashrom_flash_probe\<close> writes first.
\<close>

record probe_state =
  heap :: "nat \<rightharpoonup> flashrom_flashctx"
  chip_to_probe :: "string option"

text \<open>
  \<open>flashrom_flash_probe\<close>. \<open>malloc_ret\<close> is what \<open>malloc\<close> returns: \<open>None\<close> for NULL,
  otherwise the address of the new block. The result is the return value, the caller's
  \<open>*flashctx\<close> and the state left behind. \<open>free\<close> removes the block from the heap.
  The parameter \<open>flashprog\<close> is not used by the C function.
\<close>

definition flashrom_flash_probe ::
  "flashchip list \<Rightarrow> registered_master list \<Rightarrow> nat option \<Rightarrow> string option \<Rightarrow> probe_state
   \<Rightarrow> int \<times> nat option \<times> probe_state" where
  "flashrom_flash_probe flashchips registered_masters malloc_ret chip_name s =
     (let s1 = s\<lparr>chip_to_probe := chip_name\<rparr> in
      case malloc_ret of
        None \<Rightarrow> (1, None, s1)
      | Some p \<Rightarrow>
          (let r = probe_masters (chip_to_probe s1) flashchips registered_masters 2
                     zero_flashctx zero_flashctx
           in if fst r \<noteq> 0 then (fst r, None, s1\<lparr>heap := (heap s1)(p := None)\<rparr>)
              else (fst r, Some p, s1\<lparr>heap := (heap s1)(p \<mapsto> snd r)\<rparr>)))"

text \<open>
  The number of probe matches across a registry: the pairs of a master and a chip-table
  index that match.
\<close>

definition master_matches ::
  "string option \<Rightarrow> flashchip list \<Rightarrow> registered_master \<Rightarrow> nat list" where
  "master_matches ctp flashchips m =
     filter (chip_matches ctp flashchips m) [0 ..< length flashchips]"

definition registry_matches ::
  "string option \<Rightarrow> flashchip list \<Rightarrow> registered_master list
   \<Rightarrow> (registered_master \<times> nat) list" where
  "registry_matches ctp flashchips ms =
     concat (map (\<lambda>m. map (Pair m) (master_matches ctp flashchips m)) ms)"

text \<open>
  The index that a probe of master \<open>m\<close> from \<open>startchip\<close> returns; it does not depend
  on the context handed in.
\<close>

definition probe_idx ::
  "string option \<Rightarrow> flashchip list \<Rightarrow> registered_master \<Rightarrow> int \<Rightarrow> int" where
  "probe_idx ctp flashchips m startchip =
     fst (probe_flash ctp flashchips m startchip zero_flashctx)"

text \<open>
  The search for a second match in the words of the specification, to compare the loop
  with: the first master that matches is probed again from one index past its match, and
  every master after it is probed from the start; a second match exists when one of these
  probes finds a chip.
\<close>

fun spec_second_match ::
  "string option \<Rightarrow> flashchip list \<Rightarrow> registered_master list \<Rightarrow> bool" where
  "spec_second_match ctp flashchips [] = False"
| "spec_second_match ctp flashchips (m # ms) =
     (if probe_idx ctp flashchips m 0 = - 1 then spec_second_match ctp flashchips ms
      else (probe_idx ctp flashchips m (probe_idx ctp flashchips m 0 + 1) \<noteq> - 1
            \<or> list_ex (\<lambda>m'. probe_idx ctp flashchips m' 0 \<noteq> - 1) ms))"

section \<open>Layouts\<close>

text \<open>
  The calls a layout operation makes into the rest of the library, in the order it makes
  them: chip access, the descriptor and fmap codecs, and the releases.
\<close>

datatype call =
    Prepare_flash_access
  | Chip_read nat nat
  | Layout_from_ich_descriptors nat
  | Finalize_flash_access
  | Free_chip_layout
  | Free_desc
  | Fmap_read_from_rom int nat
  | Fmap_read_from_buffer nat
  | Free_fmap

text \<open>
  \<open>struct ich_layout\<close> as the comparison of \<open>flashrom_layout_read_from_ifd\<close> reads it:
  \<open>base.num_entries\<close>, and the bytes of the \<open>entries\<close> array that \<open>memcmp\<close> walks.
\<close>

record ich_layout =
  base_num_entries :: nat
  ich_entries :: "byte list"

text \<open>\<open>memcmp(a, b, n)\<close> as a truth value: nonzero when the first \<open>n\<close> bytes differ.\<close>

definition memcmp_differs :: "byte list \<Rightarrow> byte list \<Rightarrow> nat \<Rightarrow> bool" where
  "memcmp_differs a b n = (take n a \<noteq> take n b)"

text \<open>
  What the environment answers during one call of \<open>flashrom_layout_read_from_ifd\<close>:
  whether the two \<open>malloc\<close>s succeed, the return value of \<open>prepare_flash_access\<close>, and
  \<open>flashctx->chip->read\<close> as a function of start and length giving its return value and
  the bytes it stored in the buffer.
\<close>

record ifd_env =
  desc_malloc_ok :: bool
  chip_layout_malloc_ok :: bool
  prepare_flash_access_ret :: int
  chip_read :: "nat \<Rightarrow> nat \<Rightarrow> int \<times> byte list"

text \<open>The exits \<open>_free_ret\<close> and \<open>_finalize_ret\<close>, which falls through into it.\<close>

definition ifd_free_ret ::
  "int \<Rightarrow> ich_layout option \<Rightarrow> call list \<Rightarrow> int \<times> ich_layout option \<times> call list" where
  "ifd_free_ret ret layout_out calls =
     (ret, layout_out, calls @ (if ret \<noteq> 0 then [Free_chip_layout] else []) @ [Free_desc])"

definition ifd_finalize_ret ::
  "int \<Rightarrow> ich_layout option \<Rightarrow> call list \<Rightarrow> int \<times> ich_layout option \<times> call list" where
  "ifd_finalize_ret ret layout_out calls =
     ifd_free_ret ret layout_out (calls @ [Finalize_flash_access])"

text \<open>
  \<open>flashrom_layout_read_from_ifd\<close>. \<open>little_endian\<close> says whether
  \<open>__FLASHROM_LITTLE_ENDIAN__\<close> is defined; \<open>sizeof_entries\<close> is
  \<open>sizeof(dump_layout.entries)\<close>; the codec \<open>layout_from_ich_descriptors\<close> of
  ich_descriptors.c is a parameter, a function of the bytes and the length giving its
  return value and the layout it filled. \<open>layout0\<close> is the caller's \<open>*layout\<close> before the
  call. The result is the return value, \<open>*layout\<close> afterwards and the calls made.
\<close>

definition flashrom_layout_read_from_ifd ::
  "bool \<Rightarrow> nat \<Rightarrow> (byte list \<Rightarrow> nat \<Rightarrow> int \<times> ich_layout) \<Rightarrow> ifd_env
   \<Rightarrow> ich_layout option \<Rightarrow> byte list option \<Rightarrow> nat
   \<Rightarrow> int \<times> ich_layout option \<times> call list" where
  "flashrom_layout_read_from_ifd little_endian sizeof_entries layout_from_ich_descriptors
       env layout0 dump len =
     (if \<not> little_endian then (6, layout0, [])
      else if \<not> desc_malloc_ok env \<or> \<not> chip_layout_malloc_ok env
        then ifd_free_ret 1 layout0 []
      else if prepare_flash_access_ret env \<noteq> 0
        then ifd_free_ret 1 layout0 [Prepare_flash_access]
      else
        (let rd = chip_read env 0 0x1000;
             calls1 = [Prepare_flash_access, Chip_read 0 0x1000] in
         if fst rd \<noteq> 0 then ifd_finalize_ret 2 layout0 calls1
         else
           (let chip_layout = layout_from_ich_descriptors (snd rd) 0x1000;
                calls2 = calls1 @ [Layout_from_ich_descriptors 0x1000] in
            if fst chip_layout \<noteq> 0 then ifd_finalize_ret 3 layout0 calls2
            else
              (case dump of
                 None \<Rightarrow> ifd_finalize_ret 0 (Some (snd chip_layout)) calls2
               | Some d \<Rightarrow>
                   (let dump_layout = layout_from_ich_descriptors d len;
                        calls3 = calls2 @ [Layout_from_ich_descriptors len] in
                    if fst dump_layout \<noteq> 0 then ifd_finalize_ret 4 layout0 calls3
                    else if base_num_entries (snd chip_layout)
                              \<noteq> base_num_entries (snd dump_layout)
                            \<or> memcmp_differs (ich_entries (snd chip_layout))
                                 (ich_entries (snd dump_layout)) sizeof_entries
                      then ifd_finalize_ret 5 layout0 calls3
                    else ifd_finalize_ret 0 (Some (snd chip_layout)) calls3)))))"

text \<open>
  An fmap: its areas, \<open>nareas\<close> being their number. An area's name is a field of fixed
  width, not necessarily terminated.
\<close>

record fmap_area =
  area_offset :: "32 word"
  area_size :: "32 word"
  area_name :: string

record fmap =
  areas :: "fmap_area list"

definition nareas :: "fmap \<Rightarrow> nat" where
  "nareas f = length (areas f)"

text \<open>\<open>strndup(s, n)\<close>: the characters before the first NUL, at most \<open>n\<close> of them.\<close>

definition strndup :: "string \<Rightarrow> nat \<Rightarrow> string" where
  "strndup s n = take n (takeWhile (\<lambda>c. c \<noteq> CHR 0x00) s)"

text \<open>
  The loop of \<open>flashrom_layout_parse_fmap\<close> over the areas from index \<open>i\<close> on.
  \<open>strndup_ok i\<close> says whether the allocation of the name of area \<open>i\<close> succeeds. Each
  round stores start, end, included and the name (NULL when the allocation failed) in
  \<open>entries[num_entries]\<close>, returns 1 on a failed allocation, and counts the entry
  otherwise.
\<close>

fun parse_fmap_areas ::
  "nat \<Rightarrow> (nat \<Rightarrow> bool) \<Rightarrow> nat \<Rightarrow> fmap_area list \<Rightarrow> flashrom_layout \<Rightarrow> int \<times> flashrom_layout" where
  "parse_fmap_areas FMAP_STRLEN strndup_ok i [] l = (0, l)"
| "parse_fmap_areas FMAP_STRLEN strndup_ok i (a # rest) l =
     (let e = \<lparr>start = area_offset a,
               end_off = area_offset a + area_size a - 1,
               included = False,
               entry_name = (if strndup_ok i then Some (strndup (area_name a) FMAP_STRLEN)
                             else None)\<rparr>;
          l1 = l\<lparr>entries := (entries l)[num_entries l := e]\<rparr>
      in if \<not> strndup_ok i then (1, l1)
         else parse_fmap_areas FMAP_STRLEN strndup_ok (Suc i) rest
                (l1\<lparr>num_entries := num_entries l1 + 1\<rparr>))"

text \<open>The one layout an fmap operation can hand out: the address of the global layout.\<close>

datatype layout_ptr = Global_layout_ptr

text \<open>
  \<open>flashrom_layout_parse_fmap\<close>. \<open>MAX_ROMLAYOUT\<close> (layout.h) and \<open>FMAP_STRLEN\<close> (fmap.h)
  are parameters. \<open>g\<close> is the global layout as \<open>get_global_layout()\<close> returns it, \<open>None\<close>
  for NULL; \<open>layout0\<close> is the caller's \<open>*layout\<close> before the call. The result is the return
  value, \<open>*layout\<close> and the global layout afterwards.
\<close>

definition flashrom_layout_parse_fmap ::
  "nat \<Rightarrow> nat \<Rightarrow> (nat \<Rightarrow> bool) \<Rightarrow> layout_ptr option \<Rightarrow> fmap option \<Rightarrow> flashrom_layout option
   \<Rightarrow> int \<times> layout_ptr option \<times> flashrom_layout option" where
  "flashrom_layout_parse_fmap MAX_ROMLAYOUT FMAP_STRLEN strndup_ok layout0 fm g =
     (case (fm, g) of
        (Some f, Some l) \<Rightarrow>
          if num_entries l + nareas f > MAX_ROMLAYOUT then (1, layout0, g)
          else
            (let r = parse_fmap_areas FMAP_STRLEN strndup_ok 0 (areas f) l in
             if fst r \<noteq> 0 then (1, layout0, Some (snd r))
             else (0, Some Global_layout_ptr, Some (snd r)))
      | _ \<Rightarrow> (1, layout0, g))"

text \<open>
  \<open>flashrom_layout_read_fmap_from_rom\<close>. The reader \<open>fmap_read_from_rom\<close> of fmap.c is
  a parameter: a function of offset and length giving its return value and the \<open>fmap\<close>
  pointer it left. The result is the return value, \<open>*layout\<close>, the global layout and the
  calls made.
\<close>

definition flashrom_layout_read_fmap_from_rom ::
  "bool \<Rightarrow> nat \<Rightarrow> nat \<Rightarrow> (nat \<Rightarrow> bool) \<Rightarrow> (int \<Rightarrow> nat \<Rightarrow> int \<times> fmap option)
   \<Rightarrow> layout_ptr option \<Rightarrow> int \<Rightarrow> nat \<Rightarrow> flashrom_layout option
   \<Rightarrow> int \<times> layout_ptr option \<times> flashrom_layout option \<times> call list" where
  "flashrom_layout_read_fmap_from_rom little_endian MAX_ROMLAYOUT FMAP_STRLEN strndup_ok
       fmap_read_from_rom layout0 offset len g =
     (if \<not> little_endian then (3, layout0, g, [])
      else
        (let rd = fmap_read_from_rom offset len in
         if fst rd \<noteq> 0 then (1, layout0, g, [Fmap_read_from_rom offset len])
         else
           (let r = flashrom_layout_parse_fmap MAX_ROMLAYOUT FMAP_STRLEN strndup_ok
                      layout0 (snd rd) g
            in (if fst r \<noteq> 0 then 1 else 0, fst (snd r), snd (snd r),
                [Fmap_read_from_rom offset len, Free_fmap]))))"

text \<open>
  \<open>flashrom_layout_read_fmap_from_buffer\<close>, with \<open>buf\<close> \<open>None\<close> for NULL and the reader
  \<open>fmap_read_from_buffer\<close> of fmap.c as a parameter.
\<close>

definition flashrom_layout_read_fmap_from_buffer ::
  "bool \<Rightarrow> nat \<Rightarrow> nat \<Rightarrow> (nat \<Rightarrow> bool) \<Rightarrow> (byte list \<Rightarrow> nat \<Rightarrow> int \<times> fmap option)
   \<Rightarrow> layout_ptr option \<Rightarrow> byte list option \<Rightarrow> nat \<Rightarrow> flashrom_layout option
   \<Rightarrow> int \<times> layout_ptr option \<times> flashrom_layout option \<times> call list" where
  "flashrom_layout_read_fmap_from_buffer little_endian MAX_ROMLAYOUT FMAP_STRLEN strndup_ok
       fmap_read_from_buffer layout0 buf sz g =
     (if \<not> little_endian then (3, layout0, g, [])
      else
        (case buf of
           None \<Rightarrow> (1, layout0, g, [])
         | Some b \<Rightarrow>
             if sz = 0 then (1, layout0, g, [])
             else
               (let rd = fmap_read_from_buffer b sz in
                if fst rd \<noteq> 0 then (1, layout0, g, [Fmap_read_from_buffer sz])
                else
                  (let r = flashrom_layout_parse_fmap MAX_ROMLAYOUT FMAP_STRLEN strndup_ok
                             layout0 (snd rd) g
                   in if fst r \<noteq> 0
                      then (1, fst (snd r), snd (snd r), [Fmap_read_from_buffer sz, Free_fmap])
                      else (0, fst (snd r), snd (snd r),
                            [Fmap_read_from_buffer sz, Free_fmap])))))"

section \<open>Properties\<close>

subsection \<open>Flags\<close>

text \<open>
  Claim C10. For every flash context, every one of the four flags and every boolean \<open>v\<close>,
  \<open>flashrom_flag_set\<close> changes only the field of that flag: reading the flag back gives
  \<open>v\<close>, reading any of the other three flags gives what it gave before, and the chip,
  master and layout references of the context are unchanged.
\<close>

theorem flashrom_flag_set_frame:
  "flashrom_flag_get (flashrom_flag_set flashctx flag v) flag = v
   \<and> (\<forall>other. other \<noteq> flag \<longrightarrow>
         flashrom_flag_get (flashrom_flag_set flashctx flag v) other
           = flashrom_flag_get flashctx other)
   \<and> chip (flashrom_flag_set flashctx flag v) = chip flashctx
   \<and> mst (flashrom_flag_set flashctx flag v) = mst flashctx
   \<and> layout (flashrom_flag_set flashctx flag v) = layout flashctx"
proof -
  have own: "flashrom_flag_get (flashrom_flag_set flashctx flag v) flag = v"
    by (cases flag) simp_all
  have others: "flashrom_flag_get (flashrom_flag_set flashctx flag v) other
                  = flashrom_flag_get flashctx other" if "other \<noteq> flag" for other
    using that by (cases flag; cases other) simp_all
  have refs: "chip (flashrom_flag_set flashctx flag v) = chip flashctx"
    "mst (flashrom_flag_set flashctx flag v) = mst flashctx"
    "layout (flashrom_flag_set flashctx flag v) = layout flashctx"
    by (cases flag; simp)+
  from own others refs show ?thesis by blast
qed

text \<open>The frame property at the zeroed context, setting verify-after-write.\<close>

theorem flashrom_flag_set_frame_witness:
  "flashrom_flag_get (flashrom_flag_set zero_flashctx FLASHROM_FLAG_VERIFY_AFTER_WRITE True)
      FLASHROM_FLAG_VERIFY_AFTER_WRITE = True
   \<and> FLASHROM_FLAG_FORCE \<noteq> FLASHROM_FLAG_VERIFY_AFTER_WRITE
   \<and> flashrom_flag_get (flashrom_flag_set zero_flashctx FLASHROM_FLAG_VERIFY_AFTER_WRITE True)
        FLASHROM_FLAG_FORCE = False
   \<and> chip (flashrom_flag_set zero_flashctx FLASHROM_FLAG_VERIFY_AFTER_WRITE True) = None"
  using flashrom_flag_set_frame [of zero_flashctx FLASHROM_FLAG_VERIFY_AFTER_WRITE True]
  by (simp add: zero_flashctx_def)

subsection \<open>Write protection\<close>

text \<open>
  Claim C2. For every flash context whose master does not declare the SPI bus class
  (\<open>buses_supported & BUS_SPI\<close> is zero), \<open>flashrom_wp_write_cfg\<close>,
  \<open>flashrom_wp_read_cfg\<close> and \<open>flashrom_wp_get_available_ranges\<close> return
  \<open>FLASHROM_WP_ERR_OTHER\<close> at once: whatever the underlying operations are, none of them
  runs, so the world behind the master, the configuration object, the caller's list pointer
  and the context come back as they went in.
\<close>

theorem wp_bus_gate:
  assumes "mst flash = Some m" and "buses_supported m AND BUS_SPI = 0"
  shows "flashrom_wp_write_cfg BUS_SPI wp_write_cfg flash cfg w
           = Some (FLASHROM_WP_ERR_OTHER, flash, w)
         \<and> flashrom_wp_read_cfg BUS_SPI wp_read_cfg cfg flash w'
           = Some (FLASHROM_WP_ERR_OTHER, cfg, flash, w')
         \<and> flashrom_wp_get_available_ranges BUS_SPI wp_get_available_ranges list flash w''
           = Some (FLASHROM_WP_ERR_OTHER, list, flash, w'')"
  using assms
  by (simp add: flashrom_wp_write_cfg_def flashrom_wp_read_cfg_def
      flashrom_wp_get_available_ranges_def)

text \<open>
  The gate at a master that declares bus class 1 only, with \<open>BUS_SPI\<close> the bit 8 and
  stubs that count their calls in the world: the counter stays 0.
\<close>

theorem wp_bus_gate_witness:
  "mst (zero_flashctx\<lparr>mst := Some \<lparr>buses_supported = 1, detect = []\<rparr>\<rparr>)
     = Some \<lparr>buses_supported = 1, detect = []\<rparr>
   \<and> buses_supported \<lparr>buses_supported = 1, detect = []\<rparr> AND (8 :: 32 word) = 0
   \<and> flashrom_wp_write_cfg 8 (\<lambda>f c n. (FLASHROM_WP_OK, f, Suc n))
        (zero_flashctx\<lparr>mst := Some \<lparr>buses_supported = 1, detect = []\<rparr>\<rparr>) zero_wp_cfg (0 :: nat)
       = Some (FLASHROM_WP_ERR_OTHER,
               zero_flashctx\<lparr>mst := Some \<lparr>buses_supported = 1, detect = []\<rparr>\<rparr>, 0)
   \<and> flashrom_wp_read_cfg 8 (\<lambda>c f n. (FLASHROM_WP_OK, flashrom_wp_set_range c 0 4096, f, Suc n))
        zero_wp_cfg (zero_flashctx\<lparr>mst := Some \<lparr>buses_supported = 1, detect = []\<rparr>\<rparr>) (0 :: nat)
       = Some (FLASHROM_WP_ERR_OTHER, zero_wp_cfg,
               zero_flashctx\<lparr>mst := Some \<lparr>buses_supported = 1, detect = []\<rparr>\<rparr>, 0)
   \<and> flashrom_wp_get_available_ranges 8
        (\<lambda>l f n. (FLASHROM_WP_OK, Some \<lparr>ranges = [], count = 0\<rparr>, f, Suc n))
        None (zero_flashctx\<lparr>mst := Some \<lparr>buses_supported = 1, detect = []\<rparr>\<rparr>) (0 :: nat)
       = Some (FLASHROM_WP_ERR_OTHER, None,
               zero_flashctx\<lparr>mst := Some \<lparr>buses_supported = 1, detect = []\<rparr>\<rparr>, 0)"
proof -
  let ?m = "\<lparr>buses_supported = 1 :: 32 word, detect = []\<rparr>"
  let ?f = "zero_flashctx\<lparr>mst := Some ?m\<rparr>"
  have h1: "mst ?f = Some ?m" by simp
  have h2: "buses_supported ?m AND (8 :: 32 word) = 0" by simp
  show ?thesis
    using h1 h2
      wp_bus_gate [OF h1 h2, where wp_write_cfg = "\<lambda>f c n. (FLASHROM_WP_OK, f, Suc n)"
        and cfg = zero_wp_cfg and w = "0 :: nat"
        and wp_read_cfg = "\<lambda>c f n. (FLASHROM_WP_OK, flashrom_wp_set_range c 0 4096, f, Suc n)"
        and w' = "0 :: nat"
        and wp_get_available_ranges =
          "\<lambda>l f n. (FLASHROM_WP_OK, Some \<lparr>ranges = [], count = 0\<rparr>, f, Suc n)"
        and list = None and w'' = "0 :: nat"]
    by simp
qed

text \<open>
  Claim C8. \<open>flashrom_wp_ranges_get_range\<close> with an index at or above the list's count
  returns \<open>FLASHROM_WP_ERR_OTHER\<close>, whatever the storage holds, and leaves the caller's
  start and length as they were; with an index below the count (of a list whose storage
  holds at least count ranges) it returns 0 and writes the pair stored at that index; so on
  a non-empty list whose storage holds exactly count ranges, index count - 1 gives the last
  range.
\<close>

theorem wp_ranges_get_range_bounds:
  "(count list \<le> index \<longrightarrow>
      (\<forall>storage. flashrom_wp_ranges_get_range start0 len0 (list\<lparr>ranges := storage\<rparr>) index
                   = Some (FLASHROM_WP_ERR_OTHER, start0, len0)))
   \<and> (index < count list \<and> count list \<le> length (ranges list) \<longrightarrow>
        flashrom_wp_ranges_get_range start0 len0 list index
          = Some (FLASHROM_WP_OK,
                  range_start (ranges list ! index), range_len (ranges list ! index)))
   \<and> (0 < count list \<and> count list = length (ranges list) \<longrightarrow>
        flashrom_wp_ranges_get_range start0 len0 list (count list - 1)
          = Some (FLASHROM_WP_OK,
                  range_start (last (ranges list)), range_len (last (ranges list))))"
proof (intro conjI impI allI)
  fix storage
  assume "count list \<le> index"
  then show "flashrom_wp_ranges_get_range start0 len0 (list\<lparr>ranges := storage\<rparr>) index
               = Some (FLASHROM_WP_ERR_OTHER, start0, len0)"
    by (simp add: flashrom_wp_ranges_get_range_def)
next
  assume "index < count list \<and> count list \<le> length (ranges list)"
  then show "flashrom_wp_ranges_get_range start0 len0 list index
               = Some (FLASHROM_WP_OK,
                       range_start (ranges list ! index), range_len (ranges list ! index))"
    by (simp add: flashrom_wp_ranges_get_range_def)
next
  assume a: "0 < count list \<and> count list = length (ranges list)"
  then have pos: "0 < count list" and len: "count list = length (ranges list)"
    by blast+
  from pos len have ne: "ranges list \<noteq> []" by auto
  have lt: "\<not> count list \<le> count list - 1" "count list - 1 < length (ranges list)"
    using pos len by arith+
  have lastn: "ranges list ! (count list - 1) = last (ranges list)"
    using len ne by (simp add: last_conv_nth)
  have "flashrom_wp_ranges_get_range start0 len0 list (count list - 1)
          = Some (FLASHROM_WP_OK, range_start (ranges list ! (count list - 1)),
                  range_len (ranges list ! (count list - 1)))"
    unfolding flashrom_wp_ranges_get_range_def using lt by (simp only: if_True if_False)
  then show "flashrom_wp_ranges_get_range start0 len0 list (count list - 1)
               = Some (FLASHROM_WP_OK,
                       range_start (last (ranges list)), range_len (last (ranges list)))"
    by (simp only: lastn)
qed

text \<open>A list of two ranges: index 2 is rejected, indices 0 and 1 give the stored pairs.\<close>

theorem wp_ranges_get_range_bounds_witness:
  "count \<lparr>ranges = [\<lparr>range_start = 0, range_len = 4096\<rparr>,
                     \<lparr>range_start = 4096, range_len = 8192\<rparr>], count = 2\<rparr> \<le> 2
   \<and> flashrom_wp_ranges_get_range 7 9
        \<lparr>ranges = [\<lparr>range_start = 0, range_len = 4096\<rparr>,
                   \<lparr>range_start = 4096, range_len = 8192\<rparr>], count = 2\<rparr> 2
       = Some (FLASHROM_WP_ERR_OTHER, 7, 9)
   \<and> flashrom_wp_ranges_get_range 7 9
        \<lparr>ranges = [\<lparr>range_start = 0, range_len = 4096\<rparr>,
                   \<lparr>range_start = 4096, range_len = 8192\<rparr>], count = 2\<rparr> 0
       = Some (FLASHROM_WP_OK, 0, 4096)
   \<and> flashrom_wp_ranges_get_range 7 9
        \<lparr>ranges = [\<lparr>range_start = 0, range_len = 4096\<rparr>,
                   \<lparr>range_start = 4096, range_len = 8192\<rparr>], count = 2\<rparr> 1
       = Some (FLASHROM_WP_OK, 4096, 8192)"
proof -
  let ?l = "\<lparr>ranges = [\<lparr>range_start = 0, range_len = 4096\<rparr>,
                       \<lparr>range_start = 4096, range_len = 8192\<rparr>], count = 2\<rparr>"
  have oob: "count ?l \<le> 2" by simp
  have inb: "0 < count ?l \<and> count ?l \<le> length (ranges ?l)" by simp
  have lst: "0 < count ?l \<and> count ?l = length (ranges ?l)" by simp
  from wp_ranges_get_range_bounds [of ?l 2 7 9] oob
  have a: "flashrom_wp_ranges_get_range 7 9 (?l\<lparr>ranges := ranges ?l\<rparr>) 2
             = Some (FLASHROM_WP_ERR_OTHER, 7, 9)"
    by blast
  from wp_ranges_get_range_bounds [of ?l 0 7 9] inb
  have b: "flashrom_wp_ranges_get_range 7 9 ?l 0
             = Some (FLASHROM_WP_OK, range_start (ranges ?l ! 0), range_len (ranges ?l ! 0))"
    by blast
  from wp_ranges_get_range_bounds [of ?l 0 7 9] lst
  have c: "flashrom_wp_ranges_get_range 7 9 ?l (count ?l - 1)
             = Some (FLASHROM_WP_OK, range_start (last (ranges ?l)), range_len (last (ranges ?l)))"
    by blast
  from a b c oob show ?thesis by simp
qed

subsection \<open>Probing\<close>

text \<open>
  A scan that finds \<open>j\<close> has \<open>j\<close> as the first of the matching indices from \<open>s\<close> on.
\<close>

lemma filter_upt_first:
  assumes "find P [s ..< n] = Some j"
  shows "s \<le> j \<and> j < n \<and> P j \<and> filter P [s ..< n] = j # filter P [Suc j ..< n]"
proof -
  from assms obtain i where i: "i < length [s ..< n]" "P ([s ..< n] ! i)"
    "j = [s ..< n] ! i" "\<forall>k<i. \<not> P ([s ..< n] ! k)"
    unfolding find_Some_iff by blast
  from i have j: "j = s + i" "j < n" "s \<le> j" by auto
  have none: "filter P [s ..< j] = []"
  proof -
    have "\<not> P x" if "x \<in> set [s ..< j]" for x
    proof -
      from that have "s \<le> x" "x < j" by auto
      then have "x - s < i" using j by arith
      with i(4) have "\<not> P ([s ..< n] ! (x - s))" by blast
      moreover have "[s ..< n] ! (x - s) = x" using \<open>s \<le> x\<close> \<open>x < j\<close> j by simp
      ultimately show ?thesis by simp
    qed
    then show ?thesis by (simp add: filter_empty_conv)
  qed
  have split: "[s ..< n] = [s ..< j] @ j # [Suc j ..< n]"
    using j by (metis le_Suc_ex upt_add_eq_append upt_conv_Cons less_imp_le_nat)
  have "P j" using i j by simp
  with none split have "filter P [s ..< n] = j # filter P [Suc j ..< n]"
    by simp
  with j \<open>P j\<close> show ?thesis by simp
qed

lemma probe_flash_fst:
  "fst (probe_flash ctp chips m s flash) = probe_idx ctp chips m s"
  by (simp add: probe_idx_def probe_flash_def split: option.splits)

lemma probe_idx_none_iff:
  "probe_idx ctp chips m s = - 1
     \<longleftrightarrow> filter (chip_matches ctp chips m) [nat s ..< length chips] = []"
proof (cases "find (chip_matches ctp chips m) [nat s ..< length chips]")
  case None
  then have "filter (chip_matches ctp chips m) [nat s ..< length chips] = []"
    by (simp add: filter_empty_conv find_None_iff)
  moreover have "probe_idx ctp chips m s = - 1"
    by (simp add: probe_idx_def probe_flash_def None)
  ultimately show ?thesis by simp
next
  case (Some j)
  from filter_upt_first [OF Some]
  have "filter (chip_matches ctp chips m) [nat s ..< length chips] \<noteq> []" by simp
  moreover have "probe_idx ctp chips m s = int j"
    by (simp add: probe_idx_def probe_flash_def Some)
  ultimately show ?thesis by simp
qed

lemma probe_idx_first:
  assumes "probe_idx ctp chips m 0 \<noteq> - 1"
  shows "\<exists>j. probe_idx ctp chips m 0 = int j
             \<and> master_matches ctp chips m
                 = j # filter (chip_matches ctp chips m) [Suc j ..< length chips]
             \<and> snd (probe_flash ctp chips m 0 flash)
                 = flash\<lparr>chip := Some (chips ! j), mst := Some m\<rparr>"
proof (cases "find (chip_matches ctp chips m) [0 ..< length chips]")
  case None
  with assms show ?thesis by (simp add: probe_idx_def probe_flash_def)
next
  case (Some j)
  from filter_upt_first [OF Some] Some show ?thesis
    by (simp add: probe_idx_def probe_flash_def master_matches_def)
qed

lemma probe_idx_second:
  "probe_idx ctp chips m (int j + 1) = - 1
     \<longleftrightarrow> filter (chip_matches ctp chips m) [Suc j ..< length chips] = []"
proof -
  have "nat (int j + 1) = Suc j" by simp
  then show ?thesis by (simp only: probe_idx_none_iff)
qed

lemma master_matches_empty:
  "probe_idx ctp chips m 0 = - 1 \<longleftrightarrow> master_matches ctp chips m = []"
  by (simp add: probe_idx_none_iff master_matches_def)

lemma registry_matches_Cons:
  "registry_matches ctp chips (m # ms)
     = map (Pair m) (master_matches ctp chips m) @ registry_matches ctp chips ms"
  by (simp add: registry_matches_def)

lemma registry_matches_Nil: "registry_matches ctp chips [] = []"
  by (simp add: registry_matches_def)

lemma registry_matches_empty_iff:
  "registry_matches ctp chips ms = [] \<longleftrightarrow> \<not> list_ex (\<lambda>m. probe_idx ctp chips m 0 \<noteq> - 1) ms"
  by (induction ms) (auto simp: registry_matches_Cons registry_matches_Nil master_matches_empty)

text \<open>Once a chip is found (\<open>ret\<close> is 0), the rest of the loop only looks for a second one.\<close>

lemma probe_masters_found:
  "probe_masters ctp chips ms 0 ctx sec
     = (if registry_matches ctp chips ms = [] then 0 else 3, ctx)"
proof (induction ms arbitrary: sec)
  case Nil
  show ?case by (simp add: registry_matches_Nil)
next
  case (Cons m ms)
  show ?case
  proof (cases "probe_idx ctp chips m 0 = - 1")
    case True
    then have "master_matches ctp chips m = []" by (simp add: master_matches_empty)
    with True Cons show ?thesis
      by (simp add: probe_flash_fst registry_matches_Cons)
  next
    case False
    then have "master_matches ctp chips m \<noteq> []" by (simp add: master_matches_empty)
    with False show ?thesis
      by (simp add: probe_flash_fst registry_matches_Cons)
  qed
qed


lemma probe_flash_miss:
  "probe_idx ctp chips m s = - 1 \<Longrightarrow> snd (probe_flash ctp chips m s flash) = flash\<lparr>chip := None\<rparr>"
  by (simp add: probe_idx_def probe_flash_def split: option.splits)

lemma probe_masters_search:
  assumes "ret \<noteq> 0"
  shows "fst (probe_masters ctp chips ms ret ctx sec)
           = (if registry_matches ctp chips ms = [] then ret
              else if length (registry_matches ctp chips ms) = 1 then 0 else 3)
         \<and> (\<forall>m j. registry_matches ctp chips ms = [(m, j)] \<longrightarrow>
               snd (probe_masters ctp chips ms ret ctx sec)
                 = ctx\<lparr>chip := Some (chips ! j), mst := Some m\<rparr>)"
proof (induction ms arbitrary: ctx sec)
  case Nil
  show ?case by (simp add: registry_matches_Nil)
next
  case (Cons m ms)
  show ?case
  proof (cases "probe_idx ctp chips m 0 = - 1")
    case True
    then have none: "master_matches ctp chips m = []" by (simp add: master_matches_empty)
    have step: "probe_masters ctp chips (m # ms) ret ctx sec
                  = probe_masters ctp chips ms ret (ctx\<lparr>chip := None\<rparr>) sec"
      using assms True by (simp add: Let_def probe_flash_fst probe_flash_miss)
    have reg: "registry_matches ctp chips (m # ms) = registry_matches ctp chips ms"
      by (simp add: registry_matches_Cons none)
    from Cons [of "ctx\<lparr>chip := None\<rparr>" sec] show ?thesis
      unfolding step reg by simp
  next
    case False
    from probe_idx_first [OF False, of ctx] obtain j where
      j: "probe_idx ctp chips m 0 = int j"
      and mm: "master_matches ctp chips m
                 = j # filter (chip_matches ctp chips m) [Suc j ..< length chips]"
      and filled: "snd (probe_flash ctp chips m 0 ctx)
                     = ctx\<lparr>chip := Some (chips ! j), mst := Some m\<rparr>"
      by blast
    let ?rest = "filter (chip_matches ctp chips m) [Suc j ..< length chips]"
    let ?ctx' = "ctx\<lparr>chip := Some (chips ! j), mst := Some m\<rparr>"
    have reg: "registry_matches ctp chips (m # ms)
                 = (m, j) # map (Pair m) ?rest @ registry_matches ctp chips ms"
      by (simp add: registry_matches_Cons mm)
    show ?thesis
    proof (cases "?rest = []")
      case True
      then have second: "probe_idx ctp chips m (int j + 1) = - 1"
        by (simp only: probe_idx_second)
      have step: "probe_masters ctp chips (m # ms) ret ctx sec
                    = (if registry_matches ctp chips ms = [] then 0 else 3, ?ctx')"
        using assms False
        by (simp add: Let_def probe_flash_fst j second filled probe_masters_found)
      show ?thesis
        unfolding step reg by (simp add: True)
    next
      case nonempty: False
      then have second: "probe_idx ctp chips m (int j + 1) \<noteq> - 1"
        by (simp only: probe_idx_second not_False_eq_True)
      have step: "probe_masters ctp chips (m # ms) ret ctx sec = (3, ?ctx')"
        using assms False
        by (simp add: Let_def probe_flash_fst j second filled)
      show ?thesis
        unfolding step reg using nonempty by simp
    qed
  qed
qed

lemma probe_masters_second:
  assumes "ret \<noteq> 0" and "ret \<noteq> 3"
  shows "fst (probe_masters ctp chips ms ret ctx sec) = 3 \<longleftrightarrow> spec_second_match ctp chips ms"
proof (induction ms arbitrary: ctx sec)
  case Nil
  show ?case using assms by simp
next
  case (Cons m ms)
  show ?case
  proof (cases "probe_idx ctp chips m 0 = - 1")
    case True
    with assms Cons show ?thesis
      by (simp add: Let_def probe_flash_fst)
  next
    case False
    with assms show ?thesis
      by (auto simp: Let_def probe_flash_fst probe_masters_found registry_matches_empty_iff)
  qed
qed


lemma flashrom_flash_probe_ret:
  "fst (flashrom_flash_probe chips masters (Some p) chip_name s)
     = fst (probe_masters chip_name chips masters 2 zero_flashctx zero_flashctx)"
  by (simp add: flashrom_flash_probe_def Let_def)

text \<open>
  Claim C1. For every registry of masters: when the allocation of the context fails,
  \<open>flashrom_flash_probe\<close> returns 1. Otherwise it returns 2 when no master matches, 0
  when exactly one probe match exists across the whole registry, and only then, and 3
  when there are more; it returns 3 exactly when the search the specification describes
  finds a second match (the first matching master probed again from one index past its
  match, every later master probed from the start); and with exactly one match the
  caller's pointer is the new block, which holds the matching chip and its master.
\<close>

theorem flashrom_flash_probe_outcome:
  "flashrom_flash_probe chips masters None chip_name s
     = (1, None, s\<lparr>chip_to_probe := chip_name\<rparr>)
   \<and> fst (flashrom_flash_probe chips masters (Some p) chip_name s)
       = (if registry_matches chip_name chips masters = [] then 2
          else if length (registry_matches chip_name chips masters) = 1 then 0 else 3)
   \<and> (fst (flashrom_flash_probe chips masters (Some p) chip_name s) = 0
        \<longleftrightarrow> length (registry_matches chip_name chips masters) = 1)
   \<and> (fst (flashrom_flash_probe chips masters (Some p) chip_name s) = 3
        \<longleftrightarrow> spec_second_match chip_name chips masters)
   \<and> (\<forall>m j. registry_matches chip_name chips masters = [(m, j)] \<longrightarrow>
         flashrom_flash_probe chips masters (Some p) chip_name s
           = (0, Some p,
              s\<lparr>chip_to_probe := chip_name,
                heap := (heap s)(p \<mapsto> zero_flashctx\<lparr>chip := Some (chips ! j),
                                                     mst := Some m\<rparr>)\<rparr>))"
proof -
  let ?r = "probe_masters chip_name chips masters 2 zero_flashctx zero_flashctx"
  have two: "(2 :: int) \<noteq> 0" "(2 :: int) \<noteq> 3" by simp_all
  note search = probe_masters_search [OF two(1), of chip_name chips masters
      zero_flashctx zero_flashctx]
  have fail: "flashrom_flash_probe chips masters None chip_name s
                = (1, None, s\<lparr>chip_to_probe := chip_name\<rparr>)"
    by (simp add: flashrom_flash_probe_def)
  have ret: "fst (flashrom_flash_probe chips masters (Some p) chip_name s)
               = (if registry_matches chip_name chips masters = [] then 2
                  else if length (registry_matches chip_name chips masters) = 1 then 0 else 3)"
    using search by (simp only: flashrom_flash_probe_ret)
  have zero: "fst (flashrom_flash_probe chips masters (Some p) chip_name s) = 0
                \<longleftrightarrow> length (registry_matches chip_name chips masters) = 1"
    unfolding ret by auto
  have three: "fst (flashrom_flash_probe chips masters (Some p) chip_name s) = 3
                 \<longleftrightarrow> spec_second_match chip_name chips masters"
    using probe_masters_second [OF two] by (simp only: flashrom_flash_probe_ret)
  have filled: "flashrom_flash_probe chips masters (Some p) chip_name s
           = (0, Some p,
              s\<lparr>chip_to_probe := chip_name,
                heap := (heap s)(p \<mapsto> zero_flashctx\<lparr>chip := Some (chips ! j),
                                                     mst := Some m\<rparr>)\<rparr>)"
    if one: "registry_matches chip_name chips masters = [(m, j)]" for m j
  proof -
    from search one have "fst ?r = 0"
      and "snd ?r = zero_flashctx\<lparr>chip := Some (chips ! j), mst := Some m\<rparr>"
      by simp_all
    then show ?thesis by (simp add: flashrom_flash_probe_def Let_def)
  qed
  from fail ret zero three filled show ?thesis by blast
qed

text \<open>
  A table of two chips and no name filter: a registry whose second master detects the
  second chip gives 0 and the filled context, and 1 when the allocation fails; that master
  registered twice gives 3; a registry that detects nothing gives 2.
\<close>

theorem flashrom_flash_probe_outcome_witness:
  "registry_matches None
     [\<lparr>name = ''W25Q64.V'', total_size = 8192\<rparr>, \<lparr>name = ''MX25L6405'', total_size = 8192\<rparr>]
     [\<lparr>buses_supported = 1, detect = [False, False]\<rparr>, \<lparr>buses_supported = 8, detect = [False, True]\<rparr>]
     = [(\<lparr>buses_supported = 8, detect = [False, True]\<rparr>, 1)]
   \<and> flashrom_flash_probe
       [\<lparr>name = ''W25Q64.V'', total_size = 8192\<rparr>, \<lparr>name = ''MX25L6405'', total_size = 8192\<rparr>]
       [\<lparr>buses_supported = 1, detect = [False, False]\<rparr>, \<lparr>buses_supported = 8, detect = [False, True]\<rparr>] (Some 0) None \<lparr>heap = Map.empty, chip_to_probe = Some ''MX25L6405''\<rparr>
     = (0, Some 0,
        \<lparr>heap = Map.empty, chip_to_probe = Some ''MX25L6405''\<rparr>\<lparr>chip_to_probe := None,
           heap := (heap \<lparr>heap = Map.empty, chip_to_probe = Some ''MX25L6405''\<rparr>)(0 \<mapsto>
             zero_flashctx\<lparr>chip := Some ([\<lparr>name = ''W25Q64.V'', total_size = 8192\<rparr>, \<lparr>name = ''MX25L6405'', total_size = 8192\<rparr>] ! 1),
                           mst := Some \<lparr>buses_supported = 8, detect = [False, True]\<rparr>\<rparr>)\<rparr>)
   \<and> flashrom_flash_probe
       [\<lparr>name = ''W25Q64.V'', total_size = 8192\<rparr>, \<lparr>name = ''MX25L6405'', total_size = 8192\<rparr>]
       [\<lparr>buses_supported = 1, detect = [False, False]\<rparr>, \<lparr>buses_supported = 8, detect = [False, True]\<rparr>] None None \<lparr>heap = Map.empty, chip_to_probe = Some ''MX25L6405''\<rparr>
     = (1, None, \<lparr>heap = Map.empty, chip_to_probe = Some ''MX25L6405''\<rparr>\<lparr>chip_to_probe := None\<rparr>)
   \<and> spec_second_match None
       [\<lparr>name = ''W25Q64.V'', total_size = 8192\<rparr>, \<lparr>name = ''MX25L6405'', total_size = 8192\<rparr>]
       [\<lparr>buses_supported = 8, detect = [False, True]\<rparr>, \<lparr>buses_supported = 8, detect = [False, True]\<rparr>]
   \<and> fst (flashrom_flash_probe
            [\<lparr>name = ''W25Q64.V'', total_size = 8192\<rparr>, \<lparr>name = ''MX25L6405'', total_size = 8192\<rparr>]
            [\<lparr>buses_supported = 8, detect = [False, True]\<rparr>, \<lparr>buses_supported = 8, detect = [False, True]\<rparr>] (Some 0) None \<lparr>heap = Map.empty, chip_to_probe = Some ''MX25L6405''\<rparr>) = 3
   \<and> fst (flashrom_flash_probe
            [\<lparr>name = ''W25Q64.V'', total_size = 8192\<rparr>, \<lparr>name = ''MX25L6405'', total_size = 8192\<rparr>]
            [\<lparr>buses_supported = 1, detect = [False, False]\<rparr>, \<lparr>buses_supported = 1, detect = [False, False]\<rparr>] (Some 0) None \<lparr>heap = Map.empty, chip_to_probe = Some ''MX25L6405''\<rparr>) = 2"
proof -
  let ?ch = "[\<lparr>name = ''W25Q64.V'', total_size = 8192\<rparr>, \<lparr>name = ''MX25L6405'', total_size = 8192\<rparr>]"
  let ?m1 = "\<lparr>buses_supported = 8, detect = [False, True]\<rparr> :: registered_master"
  let ?m2 = "\<lparr>buses_supported = 1, detect = [False, False]\<rparr> :: registered_master"
  let ?s = "\<lparr>heap = Map.empty, chip_to_probe = Some ''MX25L6405''\<rparr>"
  have one: "registry_matches None ?ch [?m2, ?m1] = [(?m1, 1)]"
    by code_simp
  have two: "spec_second_match None ?ch [?m1, ?m1]"
    by code_simp
  have none: "registry_matches None ?ch [?m2, ?m2] = []"
    by code_simp
  from flashrom_flash_probe_outcome [of ?ch "[?m2, ?m1]" None ?s 0] one
  have a: "flashrom_flash_probe ?ch [?m2, ?m1] (Some 0) None ?s
             = (0, Some 0,
                ?s\<lparr>chip_to_probe := None,
                   heap := (heap ?s)(0 \<mapsto> zero_flashctx\<lparr>chip := Some (?ch ! 1),
                                                        mst := Some ?m1\<rparr>)\<rparr>)"
    and b: "flashrom_flash_probe ?ch [?m2, ?m1] None None ?s
              = (1, None, ?s\<lparr>chip_to_probe := None\<rparr>)"
    by blast+
  from flashrom_flash_probe_outcome [of ?ch "[?m1, ?m1]" None ?s 0] two
  have c: "fst (flashrom_flash_probe ?ch [?m1, ?m1] (Some 0) None ?s) = 3"
    by blast
  from flashrom_flash_probe_outcome [of ?ch "[?m2, ?m2]" None ?s 0] none
  have d: "fst (flashrom_flash_probe ?ch [?m2, ?m2] (Some 0) None ?s) = 2"
    by simp
  from one a b two c d show ?thesis by blast
qed

text \<open>
  Claim C4. Whenever \<open>flashrom_flash_probe\<close> returns a nonzero value, that value is 1,
  2 or 3, the caller's \<open>*flashctx\<close> is NULL, and the block the call allocated is not live
  afterwards: the heap is the heap before the call without that block, so with a block that
  was fresh, as \<open>malloc\<close> gives it, the heap is what it was before the call.
\<close>

theorem flashrom_flash_probe_failure_releases:
  assumes run: "flashrom_flash_probe chips masters malloc_ret chip_name s = (ret, out, s')"
      and failed: "ret \<noteq> 0"
  shows "out = None
         \<and> ret \<in> {1, 2, 3}
         \<and> heap s' = (case malloc_ret of None \<Rightarrow> heap s | Some p \<Rightarrow> (heap s)(p := None))
         \<and> (\<forall>p. malloc_ret = Some p \<and> p \<notin> dom (heap s) \<longrightarrow> heap s' = heap s)"
proof (cases malloc_ret)
  case None
  with run show ?thesis by (auto simp: flashrom_flash_probe_def)
next
  case (Some p)
  let ?r = "probe_masters chip_name chips masters 2 zero_flashctx zero_flashctx"
  have two: "(2 :: int) \<noteq> 0" by simp
  from probe_masters_search [OF two, of chip_name chips masters zero_flashctx zero_flashctx]
  have range: "fst ?r \<in> {0, 2, 3}" by (simp split: if_splits)
  from run failed Some have res: "ret = fst ?r" "out = None"
    "s' = s\<lparr>chip_to_probe := chip_name, heap := (heap s)(p := None)\<rparr>"
    by (auto simp: flashrom_flash_probe_def Let_def split: if_splits)
  from res failed range have "ret \<in> {1, 2, 3}" by auto
  moreover have "heap s' = (heap s)(p := None)" using res by simp
  moreover have "heap s' = heap s" if "p \<notin> dom (heap s)"
    using that res by (auto simp: fun_upd_idem_iff dom_def)
  ultimately show ?thesis using res Some by simp
qed

text \<open>The ambiguous registry, with the context allocated at the fresh address 5.\<close>

theorem flashrom_flash_probe_failure_releases_witness:
  "flashrom_flash_probe
     [\<lparr>name = ''W25Q64.V'', total_size = 8192\<rparr>, \<lparr>name = ''MX25L6405'', total_size = 8192\<rparr>]
     [\<lparr>buses_supported = 8, detect = [False, True]\<rparr>, \<lparr>buses_supported = 8, detect = [False, True]\<rparr>] (Some 5) None \<lparr>heap = Map.empty, chip_to_probe = Some ''MX25L6405''\<rparr>
     = (3, None, \<lparr>heap = Map.empty, chip_to_probe = None\<rparr>)
   \<and> (3 :: int) \<noteq> 0
   \<and> 5 \<notin> dom (heap \<lparr>heap = Map.empty, chip_to_probe = Some ''MX25L6405''\<rparr>)
   \<and> heap \<lparr>heap = Map.empty, chip_to_probe = None\<rparr> = heap \<lparr>heap = Map.empty, chip_to_probe = Some ''MX25L6405''\<rparr>"
proof -
  let ?ch = "[\<lparr>name = ''W25Q64.V'', total_size = 8192\<rparr>, \<lparr>name = ''MX25L6405'', total_size = 8192\<rparr>]"
  let ?m1 = "\<lparr>buses_supported = 8, detect = [False, True]\<rparr> :: registered_master"
  let ?s = "\<lparr>heap = Map.empty, chip_to_probe = Some ''MX25L6405''\<rparr>"
  let ?s' = "\<lparr>heap = Map.empty, chip_to_probe = None :: string option\<rparr>
               :: probe_state"
  have run: "flashrom_flash_probe ?ch [?m1, ?m1] (Some 5) None ?s = (3, None, ?s')"
    by (simp add: flashrom_flash_probe_def probe_flash_def chip_matches_def Let_def upt_rec)
  have failed: "(3 :: int) \<noteq> 0" by simp
  have fresh: "5 \<notin> dom (heap ?s)" by simp
  from flashrom_flash_probe_failure_releases [OF run failed] fresh
  have "heap ?s' = heap ?s" by blast
  with run failed fresh show ?thesis by blast
qed

subsection \<open>Layouts\<close>

lemmas ifd_defs =
  flashrom_layout_read_from_ifd_def ifd_finalize_ret_def ifd_free_ret_def Let_def

text \<open>
  Claim C7. On a host where \<open>__FLASHROM_LITTLE_ENDIAN__\<close> is not defined,
  \<open>flashrom_layout_read_from_ifd\<close> returns 6 and the two fmap operations return 3, at
  once: no call is made (no chip access, no codec, no reader), the caller's \<open>*layout\<close> and
  the global layout are what they were.
\<close>

theorem host_byte_order_gate:
  assumes "\<not> little_endian"
  shows "flashrom_layout_read_from_ifd little_endian sizeof_entries layout_from_ich_descriptors
           env ich_layout_in dump len = (6, ich_layout_in, [])
         \<and> flashrom_layout_read_fmap_from_rom little_endian MAX_ROMLAYOUT FMAP_STRLEN strndup_ok
             fmap_read_from_rom layout_in offset len' g = (3, layout_in, g, [])
         \<and> flashrom_layout_read_fmap_from_buffer little_endian MAX_ROMLAYOUT FMAP_STRLEN
             strndup_ok fmap_read_from_buffer layout_in buf sz g = (3, layout_in, g, [])"
  using assms
  by (simp add: flashrom_layout_read_from_ifd_def flashrom_layout_read_fmap_from_rom_def
      flashrom_layout_read_fmap_from_buffer_def)

text \<open>
  The gate with an environment, a codec and readers that would all succeed on a
  little-endian host.
\<close>

theorem host_byte_order_gate_witness:
  "\<not> False
   \<and> flashrom_layout_read_from_ifd False 4
        (\<lambda>bs n. if n < 4 then (1, \<lparr>base_num_entries = 0, ich_entries = []\<rparr>)
                  else (0, \<lparr>base_num_entries = 1, ich_entries = take 4 bs\<rparr>))
        \<lparr>desc_malloc_ok = True, chip_layout_malloc_ok = True, prepare_flash_access_ret = 0,
          chip_read = (\<lambda>s n. (0, [1, 2, 3, 4]))\<rparr> None (Some [1, 2, 3, 4]) 4
      = (6, None, [])
   \<and> flashrom_layout_read_fmap_from_rom False 128 32 (\<lambda>i. True)
        (\<lambda>off n. (0, Some \<lparr>areas = []\<rparr>)) None 0 4096
        (Some \<lparr>entries = [], num_entries = 0\<rparr>)
      = (3, None, Some \<lparr>entries = [], num_entries = 0\<rparr>, [])
   \<and> flashrom_layout_read_fmap_from_buffer False 128 32 (\<lambda>i. True)
        (\<lambda>b n. (0, Some \<lparr>areas = []\<rparr>)) None (Some [0]) 1
        (Some \<lparr>entries = [], num_entries = 0\<rparr>)
      = (3, None, Some \<lparr>entries = [], num_entries = 0\<rparr>, [])"
proof -
  have big_endian: "\<not> False" by simp
  show ?thesis
    using big_endian
      host_byte_order_gate [OF big_endian, where sizeof_entries = 4
        and layout_from_ich_descriptors = "(\<lambda>bs n. if n < 4 then (1, \<lparr>base_num_entries = 0, ich_entries = []\<rparr>)
                  else (0, \<lparr>base_num_entries = 1, ich_entries = take 4 bs\<rparr>))"
        and env = "\<lparr>desc_malloc_ok = True, chip_layout_malloc_ok = True, prepare_flash_access_ret = 0,
          chip_read = (\<lambda>s n. (0, [1, 2, 3, 4]))\<rparr>"
        and ich_layout_in = None and dump = "Some [1, 2, 3, 4]" and len = 4
        and MAX_ROMLAYOUT = 128 and FMAP_STRLEN = 32 and strndup_ok = "\<lambda>i. True"
        and fmap_read_from_rom = "\<lambda>off n. (0, Some \<lparr>areas = []\<rparr>)"
        and layout_in = None and offset = 0 and len' = 4096
        and g = "Some \<lparr>entries = [], num_entries = 0\<rparr>"
        and fmap_read_from_buffer = "\<lambda>b n. (0, Some \<lparr>areas = []\<rparr>)"
        and buf = "Some [0]" and sz = 1]
    by simp
qed

text \<open>
  When every name allocation succeeds, the loop stores all areas: it returns 0 and the
  count grows by the number of areas.
\<close>

lemma parse_fmap_areas_appends:
  "fst (parse_fmap_areas FMAP_STRLEN (\<lambda>k. True) i as l) = 0
   \<and> num_entries (snd (parse_fmap_areas FMAP_STRLEN (\<lambda>k. True) i as l))
       = num_entries l + length as"
  by (induction as arbitrary: i l) (simp_all add: Let_def)

text \<open>
  Claim C3. For every global layout and every parsed fmap, if the layout's number of
  entries plus the fmap's number of areas exceeds \<open>MAX_ROMLAYOUT\<close>, the append fails
  (\<open>flashrom_layout_parse_fmap\<close> returns 1, and so do both fmap operations that reach it)
  and the global layout is exactly what it was: no area is stored, the count is unchanged.
\<close>

theorem parse_fmap_too_many_entries:
  assumes "num_entries l + nareas f > MAX_ROMLAYOUT"
  shows "flashrom_layout_parse_fmap MAX_ROMLAYOUT FMAP_STRLEN strndup_ok layout_in (Some f) (Some l)
           = (1, layout_in, Some l)
         \<and> (fmap_read_from_rom offset len = (0, Some f) \<longrightarrow>
              flashrom_layout_read_fmap_from_rom True MAX_ROMLAYOUT FMAP_STRLEN strndup_ok
                fmap_read_from_rom layout_in offset len (Some l)
              = (1, layout_in, Some l, [Fmap_read_from_rom offset len, Free_fmap]))
         \<and> (sz \<noteq> 0 \<and> fmap_read_from_buffer b sz = (0, Some f) \<longrightarrow>
              flashrom_layout_read_fmap_from_buffer True MAX_ROMLAYOUT FMAP_STRLEN strndup_ok
                fmap_read_from_buffer layout_in (Some b) sz (Some l)
              = (1, layout_in, Some l, [Fmap_read_from_buffer sz, Free_fmap]))"
proof -
  have p: "flashrom_layout_parse_fmap MAX_ROMLAYOUT FMAP_STRLEN strndup_ok layout_in (Some f) (Some l)
             = (1, layout_in, Some l)"
    using assms by (simp add: flashrom_layout_parse_fmap_def)
  show ?thesis
    by (simp add: p flashrom_layout_read_fmap_from_rom_def
        flashrom_layout_read_fmap_from_buffer_def Let_def)
qed

text \<open>
  A layout of capacity 4 holding 3 entries and an fmap of 2 areas: there is room for one
  area, and none is stored.
\<close>

theorem parse_fmap_too_many_entries_witness:
  "num_entries \<lparr>entries = replicate 4 \<lparr>start = 0, end_off = 0, included = False, entry_name = None\<rparr>, num_entries = 3\<rparr>
     + nareas \<lparr>areas = [\<lparr>area_offset = 0, area_size = 4096, area_name = ''COREBOOT''\<rparr>, \<lparr>area_offset = 4096, area_size = 4096, area_name = ''FMAP''\<rparr>]\<rparr> > 4
   \<and> flashrom_layout_parse_fmap 4 32 (\<lambda>i. True) None
        (Some \<lparr>areas = [\<lparr>area_offset = 0, area_size = 4096, area_name = ''COREBOOT''\<rparr>, \<lparr>area_offset = 4096, area_size = 4096, area_name = ''FMAP''\<rparr>]\<rparr>)
        (Some \<lparr>entries = replicate 4 \<lparr>start = 0, end_off = 0, included = False, entry_name = None\<rparr>, num_entries = 3\<rparr>)
      = (1, None, Some \<lparr>entries = replicate 4 \<lparr>start = 0, end_off = 0, included = False, entry_name = None\<rparr>, num_entries = 3\<rparr>)
   \<and> flashrom_layout_read_fmap_from_rom True 4 32 (\<lambda>i. True)
        (\<lambda>off n. (0, Some \<lparr>areas = [\<lparr>area_offset = 0, area_size = 4096, area_name = ''COREBOOT''\<rparr>, \<lparr>area_offset = 4096, area_size = 4096, area_name = ''FMAP''\<rparr>]\<rparr>)) None 0 4096
        (Some \<lparr>entries = replicate 4 \<lparr>start = 0, end_off = 0, included = False, entry_name = None\<rparr>, num_entries = 3\<rparr>)
      = (1, None, Some \<lparr>entries = replicate 4 \<lparr>start = 0, end_off = 0, included = False, entry_name = None\<rparr>, num_entries = 3\<rparr>,
         [Fmap_read_from_rom 0 4096, Free_fmap])
   \<and> flashrom_layout_read_fmap_from_buffer True 4 32 (\<lambda>i. True)
        (\<lambda>b n. (0, Some \<lparr>areas = [\<lparr>area_offset = 0, area_size = 4096, area_name = ''COREBOOT''\<rparr>, \<lparr>area_offset = 4096, area_size = 4096, area_name = ''FMAP''\<rparr>]\<rparr>)) None (Some [0]) 1
        (Some \<lparr>entries = replicate 4 \<lparr>start = 0, end_off = 0, included = False, entry_name = None\<rparr>, num_entries = 3\<rparr>)
      = (1, None, Some \<lparr>entries = replicate 4 \<lparr>start = 0, end_off = 0, included = False, entry_name = None\<rparr>, num_entries = 3\<rparr>,
         [Fmap_read_from_buffer 1, Free_fmap])"
proof -
  let ?l = "\<lparr>entries = replicate 4 \<lparr>start = 0, end_off = 0, included = False, entry_name = None\<rparr>, num_entries = 3\<rparr>"
  let ?f = "\<lparr>areas = [\<lparr>area_offset = 0, area_size = 4096, area_name = ''COREBOOT''\<rparr>, \<lparr>area_offset = 4096, area_size = 4096, area_name = ''FMAP''\<rparr>]\<rparr>"
  have over: "num_entries ?l + nareas ?f > 4" by (simp add: nareas_def)
  show ?thesis
    using over
      parse_fmap_too_many_entries [OF over, where FMAP_STRLEN = 32 and strndup_ok = "\<lambda>i. True"
        and layout_in = None and fmap_read_from_rom = "\<lambda>off n. (0, Some ?f)"
        and offset = 0 and len = 4096
        and fmap_read_from_buffer = "\<lambda>b n. (0, Some ?f)" and b = "[0]" and sz = 1]
    by simp
qed

text \<open>
  Claim C5. In \<open>flashrom_layout_read_from_ifd\<close>, on every execution in which
  \<open>prepare_flash_access\<close> is called and succeeds, \<open>finalize_flash_access\<close> is called
  exactly once before the function returns, whatever the outcome (0, or 2, 3, 4, 5 for
  read-failed, chip-descriptor-unparsable, dump-unparsable and mismatch): the acquire is
  the first call, and from the release on only the frees follow.
\<close>

theorem ifd_finalize_exactly_once:
  assumes run: "flashrom_layout_read_from_ifd little_endian sizeof_entries
                  layout_from_ich_descriptors env layout_in dump len = (ret, layout_out, calls)"
      and acquired: "Prepare_flash_access \<in> set calls"
      and ok: "prepare_flash_access_ret env = 0"
  shows "count_list calls Finalize_flash_access = 1
         \<and> ret \<in> {0, 2, 3, 4, 5}
         \<and> hd calls = Prepare_flash_access
         \<and> dropWhile (\<lambda>c. c \<noteq> Finalize_flash_access) calls
             = Finalize_flash_access # (if ret \<noteq> 0 then [Free_chip_layout] else []) @ [Free_desc]"
  using assms
  by (auto simp: ifd_defs split: if_splits option.splits)

text \<open>A read that fails after the acquire: the outcome is 2 and the release is made.\<close>

theorem ifd_finalize_exactly_once_witness:
  "flashrom_layout_read_from_ifd True 4
     (\<lambda>bs n. if n < 4 then (1, \<lparr>base_num_entries = 0, ich_entries = []\<rparr>)
                  else (0, \<lparr>base_num_entries = 1, ich_entries = take 4 bs\<rparr>))
     \<lparr>desc_malloc_ok = True, chip_layout_malloc_ok = True, prepare_flash_access_ret = 0,
          chip_read = (\<lambda>s n. (1, []))\<rparr> None None 0
     = (2, None,
        [Prepare_flash_access, Chip_read 0 4096, Finalize_flash_access, Free_chip_layout,
         Free_desc])
   \<and> Prepare_flash_access
       \<in> set [Prepare_flash_access, Chip_read 0 4096, Finalize_flash_access, Free_chip_layout,
              Free_desc]
   \<and> prepare_flash_access_ret
        \<lparr>desc_malloc_ok = True, chip_layout_malloc_ok = True, prepare_flash_access_ret = 0,
          chip_read = (\<lambda>s n. (1, []))\<rparr> = 0
   \<and> count_list
        [Prepare_flash_access, Chip_read 0 4096, Finalize_flash_access, Free_chip_layout,
         Free_desc] Finalize_flash_access = 1"
proof -
  let ?env = "\<lparr>desc_malloc_ok = True, chip_layout_malloc_ok = True, prepare_flash_access_ret = 0,
          chip_read = (\<lambda>s n. (1, []))\<rparr>"
  let ?calls = "[Prepare_flash_access, Chip_read 0 4096, Finalize_flash_access,
                 Free_chip_layout, Free_desc]"
  have run: "flashrom_layout_read_from_ifd True 4
               (\<lambda>bs n. if n < 4 then (1, \<lparr>base_num_entries = 0, ich_entries = []\<rparr>)
                  else (0, \<lparr>base_num_entries = 1, ich_entries = take 4 bs\<rparr>))
               ?env None None 0 = (2, None, ?calls)"
    by (simp add: ifd_defs)
  have acquired: "Prepare_flash_access \<in> set ?calls" by simp
  have ok: "prepare_flash_access_ret ?env = 0" by simp
  from ifd_finalize_exactly_once [OF run acquired ok]
  have "count_list ?calls Finalize_flash_access = 1" by blast
  with run acquired ok show ?thesis by blast
qed

text \<open>
  Claim C6. In \<open>flashrom_layout_read_from_ifd\<close>, once the descriptor has been read from
  the chip: if it parses and a supplied dump parses too but differs from it in the number
  of entries or in the bytes of the entries, the outcome is 5 (and \<open>*layout\<close> is not
  set); if it parses and the dump does not, the outcome is 4; if it does not parse, the
  outcome is 3. And on no execution at all does a dump that fails to decode give 5.
\<close>

theorem ifd_mismatch_outcome:
  assumes host: "little_endian"
      and mem: "desc_malloc_ok env" "chip_layout_malloc_ok env"
      and acq: "prepare_flash_access_ret env = 0"
      and rd: "chip_read env 0 0x1000 = (0, desc)"
  shows "(layout_from_ich_descriptors desc 0x1000 = (0, chip_layout)
          \<and> layout_from_ich_descriptors d len = (0, dump_layout)
          \<and> (base_num_entries chip_layout \<noteq> base_num_entries dump_layout
             \<or> memcmp_differs (ich_entries chip_layout) (ich_entries dump_layout) sizeof_entries)
          \<longrightarrow> flashrom_layout_read_from_ifd little_endian sizeof_entries
                layout_from_ich_descriptors env layout_in (Some d) len
              = (5, layout_in,
                 [Prepare_flash_access, Chip_read 0 0x1000, Layout_from_ich_descriptors 0x1000,
                  Layout_from_ich_descriptors len, Finalize_flash_access, Free_chip_layout,
                  Free_desc]))
         \<and> (fst (layout_from_ich_descriptors desc 0x1000) = 0
            \<and> fst (layout_from_ich_descriptors d' len') \<noteq> 0
          \<longrightarrow> fst (flashrom_layout_read_from_ifd little_endian sizeof_entries
                     layout_from_ich_descriptors env layout_in (Some d') len') = 4)
         \<and> (fst (layout_from_ich_descriptors desc 0x1000) \<noteq> 0
          \<longrightarrow> fst (flashrom_layout_read_from_ifd little_endian sizeof_entries
                     layout_from_ich_descriptors env layout_in dump len'') = 3)
         \<and> (\<forall>le' n' env' l0 dd ll.
              fst (layout_from_ich_descriptors dd ll) \<noteq> 0
              \<longrightarrow> fst (flashrom_layout_read_from_ifd le' n' layout_from_ich_descriptors
                         env' l0 (Some dd) ll) \<noteq> 5)"
  using assms
  by (auto simp: ifd_defs split: if_splits option.splits)

text \<open>
  A codec that wants four bytes and takes them as the entries. The chip holds 1, 2, 3, 4:
  a dump 1, 2, 3, 5 gives 5, a dump of length 0 gives 4 (and not 5); with a codec that
  rejects everything the chip's descriptor gives 3.
\<close>

theorem ifd_mismatch_outcome_witness:
  "chip_read \<lparr>desc_malloc_ok = True, chip_layout_malloc_ok = True, prepare_flash_access_ret = 0,
          chip_read = (\<lambda>s n. (0, [1, 2, 3, 4]))\<rparr> 0 0x1000 = (0, [1, 2, 3, 4])
   \<and> memcmp_differs [1, 2, 3, 4] [1, 2, 3, 5] 4
   \<and> flashrom_layout_read_from_ifd True 4
        (\<lambda>bs n. if n < 4 then (1, \<lparr>base_num_entries = 0, ich_entries = []\<rparr>)
                  else (0, \<lparr>base_num_entries = 1, ich_entries = take 4 bs\<rparr>))
        \<lparr>desc_malloc_ok = True, chip_layout_malloc_ok = True, prepare_flash_access_ret = 0,
          chip_read = (\<lambda>s n. (0, [1, 2, 3, 4]))\<rparr> None (Some [1, 2, 3, 5]) 4
      = (5, None,
         [Prepare_flash_access, Chip_read 0 0x1000, Layout_from_ich_descriptors 0x1000,
          Layout_from_ich_descriptors 4, Finalize_flash_access, Free_chip_layout, Free_desc])
   \<and> fst (flashrom_layout_read_from_ifd True 4
        (\<lambda>bs n. if n < 4 then (1, \<lparr>base_num_entries = 0, ich_entries = []\<rparr>)
                  else (0, \<lparr>base_num_entries = 1, ich_entries = take 4 bs\<rparr>))
        \<lparr>desc_malloc_ok = True, chip_layout_malloc_ok = True, prepare_flash_access_ret = 0,
          chip_read = (\<lambda>s n. (0, [1, 2, 3, 4]))\<rparr> None (Some []) 0) = 4
   \<and> fst (flashrom_layout_read_from_ifd True 4
        (\<lambda>bs n. if n < 4 then (1, \<lparr>base_num_entries = 0, ich_entries = []\<rparr>)
                  else (0, \<lparr>base_num_entries = 1, ich_entries = take 4 bs\<rparr>))
        \<lparr>desc_malloc_ok = True, chip_layout_malloc_ok = True, prepare_flash_access_ret = 0,
          chip_read = (\<lambda>s n. (0, [1, 2, 3, 4]))\<rparr> None (Some []) 0) \<noteq> 5
   \<and> fst (flashrom_layout_read_from_ifd True 4
        (\<lambda>bs n. (1, \<lparr>base_num_entries = 0, ich_entries = []\<rparr>))
        \<lparr>desc_malloc_ok = True, chip_layout_malloc_ok = True, prepare_flash_access_ret = 0,
          chip_read = (\<lambda>s n. (0, [1, 2, 3, 4]))\<rparr> None (Some [1, 2, 3, 4]) 4) = 3"
proof -
  let ?env = "\<lparr>desc_malloc_ok = True, chip_layout_malloc_ok = True, prepare_flash_access_ret = 0,
          chip_read = (\<lambda>s n. (0, [1, 2, 3, 4]))\<rparr>"
  let ?codec = "(\<lambda>bs n. if n < 4 then (1, \<lparr>base_num_entries = 0, ich_entries = []\<rparr>)
                  else (0, \<lparr>base_num_entries = 1, ich_entries = take 4 bs\<rparr>))"
  let ?reject = "\<lambda>(bs :: byte list) (n :: nat). (1 :: int, \<lparr>base_num_entries = 0, ich_entries = []\<rparr>)"
  have host: "True" by simp
  have mem: "desc_malloc_ok ?env" "chip_layout_malloc_ok ?env" by simp_all
  have acq: "prepare_flash_access_ret ?env = 0" by simp
  have rd: "chip_read ?env 0 0x1000 = (0, [1, 2, 3, 4])" by simp
  have differs: "memcmp_differs [1, 2, 3, 4] [1, 2, 3, 5 :: byte] 4"
    by (simp add: memcmp_differs_def)
  note inst = ifd_mismatch_outcome [OF host mem acq rd, where sizeof_entries = 4 and layout_in = None]
  from inst [where layout_from_ich_descriptors = ?codec
      and chip_layout = "\<lparr>base_num_entries = 1, ich_entries = [1, 2, 3, 4]\<rparr>"
      and dump_layout = "\<lparr>base_num_entries = 1, ich_entries = [1, 2, 3, 5]\<rparr>"
      and d = "[1, 2, 3, 5]" and len = 4 and d' = "[]" and len' = 0] differs
  have a: "flashrom_layout_read_from_ifd True 4 ?codec ?env None (Some [1, 2, 3, 5]) 4
             = (5, None,
                [Prepare_flash_access, Chip_read 0 0x1000, Layout_from_ich_descriptors 0x1000,
                 Layout_from_ich_descriptors 4, Finalize_flash_access, Free_chip_layout,
                 Free_desc])"
    and b: "fst (flashrom_layout_read_from_ifd True 4 ?codec ?env None (Some []) 0) = 4"
    and c: "fst (flashrom_layout_read_from_ifd True 4 ?codec ?env None (Some []) 0) \<noteq> 5"
    by simp_all
  from inst [where layout_from_ich_descriptors = ?reject and dump = "Some [1, 2, 3, 4]"
      and len'' = 4]
  have d: "fst (flashrom_layout_read_from_ifd True 4 ?reject ?env None (Some [1, 2, 3, 4]) 4) = 3"
    by simp
  from rd differs a b c d show ?thesis by blast
qed

text \<open>
  The return values of \<open>flashrom_layout_read_fmap_from_rom\<close>: a failed read gives 1, a
  failed append gives 1, and no execution gives 2.
\<close>

lemma read_fmap_from_rom_failure_values:
  "(fst (fmap_read_from_rom offset len) \<noteq> 0 \<longrightarrow>
      fst (flashrom_layout_read_fmap_from_rom True MAX_ROMLAYOUT FMAP_STRLEN strndup_ok
             fmap_read_from_rom layout_in offset len g) = 1)
   \<and> (fst (fmap_read_from_rom offset len) = 0
       \<and> fst (flashrom_layout_parse_fmap MAX_ROMLAYOUT FMAP_STRLEN strndup_ok layout_in
                (snd (fmap_read_from_rom offset len)) g) \<noteq> 0 \<longrightarrow>
      fst (flashrom_layout_read_fmap_from_rom True MAX_ROMLAYOUT FMAP_STRLEN strndup_ok
             fmap_read_from_rom layout_in offset len g) = 1)
   \<and> fst (flashrom_layout_read_fmap_from_rom little_endian MAX_ROMLAYOUT FMAP_STRLEN strndup_ok
            fmap_read_from_rom layout_in offset len g) \<in> {0, 1, 3}"
  by (simp add: flashrom_layout_read_fmap_from_rom_def Let_def)

text \<open>
  Claim C9, which the code does not meet: \<open>flashrom_layout_read_fmap_from_rom\<close> is to
  report a failure to read the fmap from the chip with a value different from the one for
  a failure to append the areas, and its own documentation gives 2 to a failed read and 1
  to any other error. The code returns 1 for both. At a failing input: on a little-endian
  host, a reader that finds no fmap in the window (it returns 1) gives the return value 1,
  and a reader that returns an fmap of one area for a global layout that is full gives the
  return value 1 as well.
\<close>

theorem read_fmap_from_rom_read_failed_is_1:
  "flashrom_layout_read_fmap_from_rom True 4 32 (\<lambda>i. True)
     (\<lambda>off n. (1, None)) None 0 4096
     (Some \<lparr>entries = replicate 4 \<lparr>start = 0, end_off = 0, included = False, entry_name = None\<rparr>, num_entries = 0\<rparr>)
     = (1, None, Some \<lparr>entries = replicate 4 \<lparr>start = 0, end_off = 0, included = False, entry_name = None\<rparr>, num_entries = 0\<rparr>,
        [Fmap_read_from_rom 0 4096])
   \<and> flashrom_layout_read_fmap_from_rom True 4 32 (\<lambda>i. True)
       (\<lambda>off n. (0, Some \<lparr>areas = [\<lparr>area_offset = 0, area_size = 4096, area_name = ''COREBOOT''\<rparr>]\<rparr>)) None 0 4096
       (Some \<lparr>entries = replicate 4 \<lparr>start = 0, end_off = 0, included = False, entry_name = None\<rparr>, num_entries = 4\<rparr>)
     = (1, None, Some \<lparr>entries = replicate 4 \<lparr>start = 0, end_off = 0, included = False, entry_name = None\<rparr>, num_entries = 4\<rparr>,
        [Fmap_read_from_rom 0 4096, Free_fmap])"
  by (simp add: flashrom_layout_read_fmap_from_rom_def flashrom_layout_parse_fmap_def
      nareas_def Let_def)

end
